theory Spec2Isabelle
  imports Complex_Main
begin

section \<open>The risk scorer\<close>

text \<open>
  The scoring engine of the application lives in the Python server (\<open>app.py\<close>), which is
  not among the source files; only the browser script \<open>static/js/app.js\<close> is. The data
  model and the algorithm of the scorer are therefore taken from the specification
  (sections 3 and 4.1). The specification leaves the weights and the tier cutoffs open
  ("configuration data"), so they are parameters here.
\<close>

text \<open>Modelled from the spec: the data model of section 3, \<open>HealthProfile\<close> and
  \<open>RiskResult\<close> (their declarations are in the missing \<open>app.py\<close>).\<close>

datatype gender = Male | Female | Other
datatype work_type = Private | SelfEmployed | Government | NeverWorked | Child
datatype residence_type = Urban | Rural
datatype smoking_status = Never | Former | Current | Unknown

record HealthProfile =
  age :: int
  gender :: gender
  hypertension :: bool
  heart_disease :: bool
  ever_married :: bool
  work_type :: work_type
  residence_type :: residence_type
  avg_glucose_level :: real
  bmi :: real
  smoking_status :: smoking_status

datatype tier = VeryLow | Low | Moderate | High | VeryHigh | Critical

record RiskResult =
  result_score :: real
  result_tier :: tier
  contributing_factors :: "(string \<times> real) list"

text \<open>A rule is a factor name with the weight it contributes for a profile (0 when its
  condition does not hold). The rule list and the five ascending cutoffs are the
  configuration.\<close>

type_synonym rule = "string \<times> (HealthProfile \<Rightarrow> real)"

record ScoringConfig =
  rules :: "rule list"
  cutoffs :: "real \<times> real \<times> real \<times> real \<times> real"

text \<open>Modelled from the spec: the configured bound range of the score, 0 to 100.\<close>

definition bound_lo :: real where
  "bound_lo = 0"

definition bound_hi :: real where
  "bound_hi = 100"

text \<open>Modelled from the spec: steps 1 to 3 of the algorithm of section 4.1 (the scorer's
  code is missing). The rules are evaluated in their fixed order, starting from a base
  score of 0; every non-zero contribution is added and recorded.\<close>

fun accumulate :: "rule list \<Rightarrow> HealthProfile \<Rightarrow> real \<times> (string \<times> real) list
    \<Rightarrow> real \<times> (string \<times> real) list" where
  "accumulate [] p acc = acc"
| "accumulate ((nm, w) # rs) p (s, fs) =
     (let c = w p
      in if c \<noteq> 0 then accumulate rs p (s + c, fs @ [(nm, c)])
         else accumulate rs p (s, fs))"

text \<open>Modelled from the spec: step 4, "clamp the accumulated score to the configured
  bound range".\<close>

definition clamp :: "real \<Rightarrow> real" where
  "clamp s = max bound_lo (min bound_hi s)"

text \<open>Modelled from the spec: step 5, "score < t1, Very Low; < t2, Low; ...; at least
  t5, Critical".\<close>

definition tier_of :: "real \<times> real \<times> real \<times> real \<times> real \<Rightarrow> real \<Rightarrow> tier" where
  "tier_of cs s =
     (case cs of (t1, t2, t3, t4, t5) \<Rightarrow>
        if s < t1 then VeryLow
        else if s < t2 then Low
        else if s < t3 then Moderate
        else if s < t4 then High
        else if s < t5 then VeryHigh
        else Critical)"

text \<open>Modelled from the spec: the contract \<open>score(profile) -> RiskResult\<close> of section 4.1
  (the function itself is in the missing \<open>app.py\<close>).\<close>

definition score :: "ScoringConfig \<Rightarrow> HealthProfile \<Rightarrow> RiskResult" where
  "score cfg p =
     (case accumulate (rules cfg) p (0, []) of (raw, factors) \<Rightarrow>
        let clamped = clamp raw
        in \<lparr>result_score = clamped,
            result_tier = tier_of (cutoffs cfg) clamped,
            contributing_factors = factors\<rparr>)"


section \<open>Strings and numbers of the browser script\<close>

text \<open>
  The rest of the development embeds \<open>static/js/app.js\<close>. A JavaScript string is a
  sequence of code units; the model uses \<open>string\<close>, whose characters are the code units
  0 to 255. Among them the white space of the language (the \<open>WhiteSpace\<close> and
  \<open>LineTerminator\<close> productions, which \<open>trim\<close>, \<open>parseInt\<close>, \<open>parseFloat\<close> and the
  regular expression escape \<open>\s\<close> all share) is TAB, LF, VT, FF, CR, SPACE and the
  no-break space U+00A0.
\<close>

definition isWhiteSpace :: "char \<Rightarrow> bool" where
  "isWhiteSpace c =
     (let n = (of_char c :: int) in (9 \<le> n \<and> n \<le> 13) \<or> n = 32 \<or> n = 160)"

definition trimStart :: "string \<Rightarrow> string" where
  "trimStart s = dropWhile isWhiteSpace s"

definition trim :: "string \<Rightarrow> string" where
  "trim s = rev (dropWhile isWhiteSpace (rev (dropWhile isWhiteSpace s)))"

subsection \<open>The regular expression of \<open>isValidEmail\<close>\<close>

text \<open>
  The pattern \<^verbatim>\<open>/^[^\s@]+@[^\s@]+\.[^\s@]+$/\<close> is a sequence of one-character items,
  each taken once or one-or-more times, anchored at both ends. \<open>NegClass ws cs\<close> is a
  negated class \<^verbatim>\<open>[^...]\<close> listing the characters \<open>cs\<close> and, when \<open>ws\<close> holds, the
  escape \<^verbatim>\<open>\s\<close>.
\<close>

datatype item = Lit char | NegClass bool "char list"

datatype quant = Once | Plus

type_synonym regex = "(item \<times> quant) list"

fun matches_item :: "item \<Rightarrow> char \<Rightarrow> bool" where
  "matches_item (Lit a) c = (c = a)"
| "matches_item (NegClass ws cs) c = (\<not> (ws \<and> isWhiteSpace c) \<and> c \<notin> set cs)"

text \<open>Backtracking match of the remaining items against the remaining input, up to the
  end of the input (the anchor \<^verbatim>\<open>$\<close>, without the multiline flag). A \<open>+\<close> item is greedy:
  it first tries to take one more character and falls back to the next item.\<close>

fun match_here :: "regex \<Rightarrow> string \<Rightarrow> bool" where
  "match_here [] s = (s = [])"
| "match_here ((i, q) # r) [] = False"
| "match_here ((i, Once) # r) (c # cs) = (matches_item i c \<and> match_here r cs)"
| "match_here ((i, Plus) # r) (c # cs) =
     (matches_item i c \<and> (match_here ((i, Plus) # r) cs \<or> match_here r cs))"

text \<open>\<open>test\<close> on a pattern that begins with \<^verbatim>\<open>^\<close>: only position 0 is tried.\<close>

definition test :: "regex \<Rightarrow> string \<Rightarrow> bool" where
  "test re s = match_here re s"

definition emailRegex :: regex where
  "emailRegex =
     [(NegClass True ''@'', Plus), (Lit (CHR ''@''), Once),
      (NegClass True ''@'', Plus), (Lit (CHR ''.''), Once),
      (NegClass True ''@'', Plus)]"

definition isValidEmail :: "string \<Rightarrow> bool" where
  "isValidEmail email = test emailRegex email"

text \<open>The shape of an accepted address in the words of the claim: one or more
  characters that are neither white space nor \<open>@\<close>, an \<open>@\<close>, one or more such
  characters, a dot, and one or more such characters.\<close>

definition plain_char :: "char \<Rightarrow> bool" where
  "plain_char c = (\<not> isWhiteSpace c \<and> c \<noteq> CHR ''@'')"

definition email_shape :: "string \<Rightarrow> bool" where
  "email_shape s =
     (\<exists>a b c. s = a @ ''@'' @ b @ ''.'' @ c \<and> a \<noteq> [] \<and> b \<noteq> [] \<and> c \<noteq> []
        \<and> list_all plain_char a \<and> list_all plain_char b \<and> list_all plain_char c)"


subsection \<open>Numbers\<close>

text \<open>A Number is \<open>NaN\<close>, an infinity, or a finite value, kept as the rational it
  denotes.\<close>

datatype jsnum = NaN | Num rat | PosInf | NegInf

text \<open>The relational operators: every comparison with \<open>NaN\<close> is false.\<close>

fun js_lt :: "jsnum \<Rightarrow> jsnum \<Rightarrow> bool" where
  "js_lt (Num x) (Num y) = (x < y)"
| "js_lt (Num x) PosInf = True"
| "js_lt NegInf (Num y) = True"
| "js_lt NegInf PosInf = True"
| "js_lt a b = False"

definition js_gt :: "jsnum \<Rightarrow> jsnum \<Rightarrow> bool" where
  "js_gt a b = js_lt b a"

definition isNaN :: "jsnum \<Rightarrow> bool" where
  "isNaN n = (n = NaN)"

subsection \<open>\<open>parseInt\<close> and \<open>parseFloat\<close>\<close>

definition isDigit :: "char \<Rightarrow> bool" where
  "isDigit c = (let n = (of_char c :: int) in 48 \<le> n \<and> n \<le> 57)"

text \<open>The value of a digit or letter as a digit of a radix up to 36; 36 for any other
  character, which is a digit of no radix.\<close>

definition digitValue :: "char \<Rightarrow> int" where
  "digitValue c =
     (let n = (of_char c :: int)
      in if 48 \<le> n \<and> n \<le> 57 then n - 48
         else if 97 \<le> n \<and> n \<le> 122 then n - 87
         else if 65 \<le> n \<and> n \<le> 90 then n - 55
         else 36)"

definition isRadixDigit :: "int \<Rightarrow> char \<Rightarrow> bool" where
  "isRadixDigit radix c = (digitValue c < radix)"

definition digitsValue :: "int \<Rightarrow> string \<Rightarrow> int" where
  "digitsValue radix ds = foldl (\<lambda>acc c. acc * radix + digitValue c) 0 ds"

definition stripSign :: "string \<Rightarrow> bool \<times> string" where
  "stripSign s =
     (case s of
        [] \<Rightarrow> (False, [])
      | c # cs \<Rightarrow> if c = CHR ''-'' then (True, cs)
                 else if c = CHR ''+'' then (False, cs)
                 else (False, s))"

definition stripHexPrefix :: "string \<Rightarrow> int \<times> string" where
  "stripHexPrefix s =
     (if take 2 s = ''0x'' \<or> take 2 s = ''0X'' then (16, drop 2 s) else (10, s))"

text \<open>\<open>parseInt(string)\<close> without a radix: leading white space is skipped, then a sign,
  then the prefix \<open>0x\<close> selects radix 16, and the longest run of digits of the radix is
  read; no digit gives \<open>NaN\<close>. The result is the integer read. (The language rounds an
  integer above \<open>2^53\<close> to a neighbouring double; the order with respect to 0 and to
  120, all this script asks of the result, is the same.)\<close>

definition parseInt :: "string \<Rightarrow> jsnum" where
  "parseInt s =
     (case stripSign (trimStart s) of (neg, s2) \<Rightarrow>
      case stripHexPrefix s2 of (radix, s3) \<Rightarrow>
        let ds = takeWhile (isRadixDigit radix) s3
        in if ds = [] then NaN
           else let n = digitsValue radix ds
                in Num (of_int (if neg then - n else n)))"

text \<open>\<open>parseFloat(string)\<close>: leading white space is skipped and the longest prefix that
  is a decimal literal is read: a sign, then \<open>Infinity\<close>, or digits with an optional
  fraction and an optional exponent (an exponent without digits is not part of the
  literal). No such prefix gives \<open>NaN\<close>. The decimal value read is rounded to a double
  by \<open>rnd\<close>, a parameter: the theorems below hold for every rounding, and \<open>binary64\<close>
  below is the rounding of the language.\<close>

definition pow10 :: "int \<Rightarrow> rat" where
  "pow10 e = (if 0 \<le> e then 10 ^ nat e else 1 / 10 ^ nat (- e))"

definition exponentPart :: "string \<Rightarrow> int" where
  "exponentPart s =
     (case s of
        [] \<Rightarrow> 0
      | c # cs \<Rightarrow>
          if c = CHR ''e'' \<or> c = CHR ''E'' then
            (case stripSign cs of (neg, s2) \<Rightarrow>
               let ds = takeWhile isDigit s2
               in if ds = [] then 0
                  else let n = digitsValue 10 ds in (if neg then - n else n))
          else 0)"

definition parseFloat :: "(rat \<Rightarrow> jsnum) \<Rightarrow> string \<Rightarrow> jsnum" where
  "parseFloat rnd s =
     (case stripSign (trimStart s) of (neg, s2) \<Rightarrow>
        if take 8 s2 = ''Infinity'' then (if neg then NegInf else PosInf)
        else
          let ip = takeWhile isDigit s2;
              r1 = dropWhile isDigit s2;
              fp = (case r1 of [] \<Rightarrow> [] | c # cs \<Rightarrow> if c = CHR ''.'' then takeWhile isDigit cs else []);
              r2 = (case r1 of [] \<Rightarrow> [] | c # cs \<Rightarrow> if c = CHR ''.'' then dropWhile isDigit cs else r1)
          in if ip = [] \<and> fp = [] then NaN
             else
               let m = of_int (digitsValue 10 ip) + of_int (digitsValue 10 fp) / 10 ^ length fp;
                   v = m * pow10 (exponentPart r2)
               in rnd (if neg then - v else v))"

subsection \<open>Rounding to a double\<close>

text \<open>Round to nearest, ties to even, in the binary64 format: 53 significant bits,
  exponents from -1022 (below it the spacing stays \<open>2^-1074\<close>) to 1023 (above it the
  result is infinite). \<open>bitlen n\<close> is the number of binary digits of \<open>n\<close> and \<open>ilog2 a\<close> the
  integer part of the binary logarithm of a positive rational.\<close>

function bitlen :: "int \<Rightarrow> int" where
  "bitlen n = (if n \<le> 0 then 0 else 1 + bitlen (n div 2))"
  by pat_completeness auto
termination
  by (relation "measure nat") auto

definition pow2 :: "int \<Rightarrow> rat" where
  "pow2 e = (if 0 \<le> e then 2 ^ nat e else 1 / 2 ^ nat (- e))"

definition ilog2 :: "rat \<Rightarrow> int" where
  "ilog2 a =
     (case quotient_of a of (p, d) \<Rightarrow>
        let k = bitlen p - bitlen d
        in if pow2 k \<le> a then k else k - 1)"

definition roundHalfEven :: "rat \<Rightarrow> int" where
  "roundHalfEven x =
     (let f = \<lfloor>x\<rfloor>; d = x - of_int f
      in if d < 1 / 2 then f
         else if 1 / 2 < d then f + 1
         else if even f then f else f + 1)"

definition binary64 :: "rat \<Rightarrow> jsnum" where
  "binary64 q =
     (if q = 0 then Num 0
      else
        let a = \<bar>q\<bar>;
            e = max (ilog2 a) (- 1022);
            u = pow2 (e - 52);
            n = roundHalfEven (a / u)
        in if 1023 < e \<or> (e = 1023 \<and> 9007199254740992 \<le> n)
           then (if 0 < q then PosInf else NegInf)
           else Num (if 0 < q then of_int n * u else - (of_int n * u)))"


section \<open>Form validation\<close>

text \<open>
  A form control, as \<open>validateField\<close> reads it: its value, its type and name, whether it
  carries the \<open>required\<close> attribute, and its \<open>min\<close> and \<open>max\<close> attributes
  (\<open>getAttribute\<close> gives null for an absent one). The last two fields are what
  \<open>showFieldError\<close> and \<open>clearFieldError\<close> change: the class \<open>error\<close> of the control and
  the \<open>.error-message\<close> element of its parent, taken here as a container of this control
  alone. What \<open>validateField\<close> returns depends on neither.

  The error texts are constructors:
  \<^item> \<open>Required\<close>: "This field is required"
  \<^item> \<open>InvalidEmail\<close>: "Please enter a valid email address"
  \<^item> \<open>InvalidNumber\<close>: "Please enter a valid number"
  \<^item> \<open>TooSmall m\<close>: "Value must be at least m"
  \<^item> \<open>TooLarge m\<close>: "Value must be no more than m"
  \<^item> \<open>ShortPassword\<close>: "Password must be at least 6 characters long"
  \<^item> \<open>InvalidAge\<close>: "Please enter a valid age (0-120)"
  \<^item> \<open>InvalidBmi\<close>: "Please enter a valid BMI (10-60)"
  \<^item> \<open>InvalidGlucose\<close>: "Please enter a valid glucose level (50-500 mg/dL)"
\<close>

datatype message =
    Required | InvalidEmail | InvalidNumber | TooSmall jsnum | TooLarge jsnum
  | ShortPassword | InvalidAge | InvalidBmi | InvalidGlucose

record field =
  field_value :: string
  field_type :: string
  field_name :: string
  required :: bool
  min_attr :: "string option"
  max_attr :: "string option"
  error_class :: bool
  error_message :: "message option"

definition showFieldError :: "field \<Rightarrow> message \<Rightarrow> field" where
  "showFieldError f m = f\<lparr>error_class := True, error_message := Some m\<rparr>"

definition clearFieldError :: "field \<Rightarrow> field" where
  "clearFieldError f = f\<lparr>error_class := False, error_message := None\<rparr>"

text \<open>\<open>parseFloat(field.getAttribute(...))\<close>: a missing attribute is null, which
  \<open>parseFloat\<close> converts to the string \<open>null\<close>.\<close>

definition attributeString :: "string option \<Rightarrow> string" where
  "attributeString a = (case a of None \<Rightarrow> ''null'' | Some s \<Rightarrow> s)"

text \<open>The \<open>switch (fieldType)\<close> of \<open>validateField\<close>: the message of the branch that
  returns false, or \<open>None\<close> when the switch falls through to the checks by name.\<close>

definition typeCheck :: "(rat \<Rightarrow> jsnum) \<Rightarrow> field \<Rightarrow> string \<Rightarrow> message option" where
  "typeCheck rnd f v =
     (if field_type f = ''email'' then
        (if v \<noteq> [] \<and> \<not> isValidEmail v then Some InvalidEmail else None)
      else if field_type f = ''number'' then
        (let mn = parseFloat rnd (attributeString (min_attr f));
             mx = parseFloat rnd (attributeString (max_attr f));
             numValue = parseFloat rnd v
         in if v \<noteq> [] \<and> isNaN numValue then Some InvalidNumber
            else if \<not> isNaN mn \<and> js_lt numValue mn then Some (TooSmall mn)
            else if \<not> isNaN mx \<and> js_gt numValue mx then Some (TooLarge mx)
            else None)
      else if field_type f = ''password'' then
        (if v \<noteq> [] \<and> length v < 6 then Some ShortPassword else None)
      else None)"

text \<open>\<open>x < lo || x > hi\<close>, the test of the three checks by field name.\<close>

definition outside :: "jsnum \<Rightarrow> rat \<Rightarrow> rat \<Rightarrow> bool" where
  "outside x lo hi = (js_lt x (Num lo) \<or> js_gt x (Num hi))"

definition validateField :: "(rat \<Rightarrow> jsnum) \<Rightarrow> field \<Rightarrow> bool \<times> field" where
  "validateField rnd field0 =
     (let v = trim (field_value field0);
          fieldName = field_name field0;
          f = clearFieldError field0
      in if required field0 \<and> v = [] then (False, showFieldError f Required)
         else
           (case typeCheck rnd field0 v of
              Some m \<Rightarrow> (False, showFieldError f m)
            | None \<Rightarrow>
                if fieldName = ''age'' \<and> v \<noteq> [] \<and> outside (parseInt v) 0 120
                then (False, showFieldError f InvalidAge)
                else if fieldName = ''bmi'' \<and> v \<noteq> [] \<and> outside (parseFloat rnd v) 10 60
                then (False, showFieldError f InvalidBmi)
                else if fieldName = ''avg_glucose_level'' \<and> v \<noteq> []
                        \<and> outside (parseFloat rnd v) 50 500
                then (False, showFieldError f InvalidGlucose)
                else (True, f)))"

text \<open>A form is the list of its controls in document order. \<open>validateForm\<close> visits those
  that carry the \<open>required\<close> attribute (\<open>querySelectorAll('[required]')\<close>), validates
  each, which updates its error display, and clears \<open>isValid\<close> at each failure.\<close>

fun validateFields :: "(rat \<Rightarrow> jsnum) \<Rightarrow> field list \<Rightarrow> bool \<Rightarrow> bool \<times> field list" where
  "validateFields rnd [] isValid = (isValid, [])"
| "validateFields rnd (f # fs) isValid =
     (if required f then
        (case validateField rnd f of (ok, f') \<Rightarrow>
           (case validateFields rnd fs (if \<not> ok then False else isValid) of
              (r, fs') \<Rightarrow> (r, f' # fs')))
      else
        (case validateFields rnd fs isValid of (r, fs') \<Rightarrow> (r, f # fs')))"

definition validateForm :: "(rat \<Rightarrow> jsnum) \<Rightarrow> field list \<Rightarrow> bool \<times> field list" where
  "validateForm rnd form = validateFields rnd form True"

text \<open>The submit listener: what it does to the event and to the page, as the list of its
  calls, with the form after validation.\<close>

datatype effect = PreventDefault | ShowAlert string string

definition submitHandler :: "(rat \<Rightarrow> jsnum) \<Rightarrow> field list \<Rightarrow> effect list \<times> field list" where
  "submitHandler rnd form =
     (case validateForm rnd form of (ok, form') \<Rightarrow>
        (if \<not> ok
         then [PreventDefault,
               ShowAlert ''Please fill in all required fields correctly.'' ''warning'']
         else [],
         form'))"

text \<open>The condition of the claim about the age field, in its words: the value
  represents an integer (it is an optional sign and decimal digits) between two bounds.\<close>

definition integer_numeral :: "string \<Rightarrow> bool" where
  "integer_numeral s = (case stripSign s of (neg, ds) \<Rightarrow> ds \<noteq> [] \<and> list_all isDigit ds)"

definition integer_value :: "string \<Rightarrow> int" where
  "integer_value s =
     (case stripSign s of (neg, ds) \<Rightarrow> if neg then - digitsValue 10 ds else digitsValue 10 ds)"

definition integer_in_range :: "string \<Rightarrow> int \<Rightarrow> int \<Rightarrow> bool" where
  "integer_in_range s lo hi = (integer_numeral s \<and> lo \<le> integer_value s \<and> integer_value s \<le> hi)"

text \<open>A Number lies between two bounds, inclusive: it is finite and within them.\<close>

definition between :: "jsnum \<Rightarrow> rat \<Rightarrow> rat \<Rightarrow> bool" where
  "between x lo hi = (case x of Num q \<Rightarrow> lo \<le> q \<and> q \<le> hi | _ \<Rightarrow> False)"


text \<open>Example controls for the concrete evaluations below: a required control of a given
  type and name without \<open>min\<close> and \<open>max\<close>, and a number input with both.\<close>

definition input :: "string \<Rightarrow> string \<Rightarrow> string \<Rightarrow> field" where
  "input ty nm v =
     \<lparr>field_value = v, field_type = ty, field_name = nm, required = True,
      min_attr = None, max_attr = None, error_class = False, error_message = None\<rparr>"

definition number_input :: "string \<Rightarrow> string \<Rightarrow> string \<Rightarrow> string \<Rightarrow> field" where
  "number_input nm mn mx v = (input ''number'' nm v)\<lparr>min_attr := Some mn, max_attr := Some mx\<rparr>"


section \<open>Property lookup and the tier colours\<close>

text \<open>
  \<open>getRiskLevelColor\<close> reads \<open>colors[level]\<close> from an object literal. A property read
  looks at the object's own properties and then along its prototype chain; the prototype
  of an object literal is \<open>Object.prototype\<close>, whose properties are functions, except
  the accessor \<open>__proto__\<close>, which yields the prototype object itself. A value is one of
  these, a string, or \<open>undefined\<close> when no object on the chain has the property.
\<close>

datatype jsval = Undefined | Str string | Function string | ObjectPrototype

definition objectPrototype :: "(string \<times> jsval) list" where
  "objectPrototype =
     [(''constructor'', Function ''Object''),
      (''__defineGetter__'', Function ''__defineGetter__''),
      (''__defineSetter__'', Function ''__defineSetter__''),
      (''hasOwnProperty'', Function ''hasOwnProperty''),
      (''__lookupGetter__'', Function ''__lookupGetter__''),
      (''__lookupSetter__'', Function ''__lookupSetter__''),
      (''isPrototypeOf'', Function ''isPrototypeOf''),
      (''propertyIsEnumerable'', Function ''propertyIsEnumerable''),
      (''toString'', Function ''toString''),
      (''valueOf'', Function ''valueOf''),
      (''__proto__'', ObjectPrototype),
      (''toLocaleString'', Function ''toLocaleString'')]"

definition getProperty :: "(string \<times> string) list \<Rightarrow> string \<Rightarrow> jsval" where
  "getProperty own key =
     (case map_of own key of
        Some v \<Rightarrow> Str v
      | None \<Rightarrow> (case map_of objectPrototype key of Some b \<Rightarrow> b | None \<Rightarrow> Undefined))"

text \<open>The truth value of a value, as \<open>||\<close> tests it: \<open>undefined\<close> and the empty string are
  false, every object and function is true.\<close>

fun truthy :: "jsval \<Rightarrow> bool" where
  "truthy Undefined = False"
| "truthy (Str s) = (s \<noteq> [])"
| "truthy (Function n) = True"
| "truthy ObjectPrototype = True"

definition colors :: "(string \<times> string) list" where
  "colors =
     [(''Very Low'', ''#28a745''),
      (''Low'', ''#17a2b8''),
      (''Moderate'', ''#ffc107''),
      (''High'', ''#fd7e14''),
      (''Very High'', ''#dc3545''),
      (''Critical'', ''#6f42c1'')]"

definition getRiskLevelColor :: "string \<Rightarrow> jsval" where
  "getRiskLevelColor level =
     (let c = getProperty colors level in if truthy c then c else Str ''#6c757d'')"

text \<open>The six tier names of the specification's ordered enumeration.\<close>

definition tier_names :: "string list" where
  "tier_names = [''Very Low'', ''Low'', ''Moderate'', ''High'', ''Very High'', ''Critical'']"


section \<open>The document and toast alerts\<close>

text \<open>
  The document is the tree of its root element. An element has a tag, the tokens of its
  class attribute, and children; the other node is text. \<open>querySelectorAll\<close> with a
  class selector lists the elements with that class in document order.
\<close>

datatype node = Element string "string list" "node list" | Text string

fun hasClass :: "string \<Rightarrow> node \<Rightarrow> bool" where
  "hasClass c (Element tg cl ch) = (c \<in> set cl)"
| "hasClass c (Text t) = False"


text \<open>\<open>existingAlerts.forEach(alert => alert.remove())\<close> detaches every element the
  query found from its parent. What stays in the document is the tree without the
  matching elements and their subtrees. The root itself may match: then the document
  is left without an element.\<close>

fun removeMatching :: "string \<Rightarrow> node \<Rightarrow> node" where
  "removeMatching c (Text t) = Text t"
| "removeMatching c (Element tg cl ch) =
     Element tg cl (map (removeMatching c) (filter (\<lambda>n. \<not> hasClass c n) ch))"

definition removeAlerts :: "node \<Rightarrow> node option" where
  "removeAlerts doc =
     (if hasClass ''alert-toast'' doc then None else Some (removeMatching ''alert-toast'' doc))"

text \<open>\<open>document.body.appendChild(alert)\<close>: \<open>document.body\<close> is the first child of the
  \<open>html\<close> root that is a \<open>body\<close> or \<open>frameset\<close> element, and null when there is none;
  the call on null throws a TypeError.\<close>

datatype js_error = TypeError

fun appendToFirstBody :: "node list \<Rightarrow> node \<Rightarrow> node list option" where
  "appendToFirstBody [] new = None"
| "appendToFirstBody (Text t # ns) new = map_option ((#) (Text t)) (appendToFirstBody ns new)"
| "appendToFirstBody (Element tg cl ch # ns) new =
     (if tg = ''body'' \<or> tg = ''frameset'' then Some (Element tg cl (ch @ [new]) # ns)
      else map_option ((#) (Element tg cl ch)) (appendToFirstBody ns new))"

definition appendChildToBody :: "node \<Rightarrow> node \<Rightarrow> js_error + node" where
  "appendChildToBody doc new =
     (case doc of
        Text t \<Rightarrow> Inl TypeError
      | Element tg cl ch \<Rightarrow>
          if tg = ''html'' then
            (case appendToFirstBody ch new of
               None \<Rightarrow> Inl TypeError
             | Some ch' \<Rightarrow> Inr (Element tg cl ch'))
          else Inl TypeError)"

text \<open>A node that \<open>document.body\<close> can be.\<close>

fun isBody :: "node \<Rightarrow> bool" where
  "isBody (Element tg cl ch) = (tg = ''body'' \<or> tg = ''frameset'')"
| "isBody (Text t) = False"

text \<open>Assigning \<open>className\<close> sets the class attribute; its tokens are the maximal runs
  of characters other than ASCII white space.\<close>

definition isAsciiWhitespace :: "char \<Rightarrow> bool" where
  "isAsciiWhitespace c =
     (let n = (of_char c :: int) in n = 9 \<or> n = 10 \<or> n = 12 \<or> n = 13 \<or> n = 32)"

fun tokens :: "string \<Rightarrow> string \<Rightarrow> string list" where
  "tokens cur [] = (if cur = [] then [] else [cur])"
| "tokens cur (c # cs) =
     (if isAsciiWhitespace c then (if cur = [] then tokens [] cs else cur # tokens [] cs)
      else tokens (cur @ [c]) cs)"

definition classTokens :: "string \<Rightarrow> string list" where
  "classTokens s = tokens [] s"

text \<open>The icon table of \<open>showAlert\<close>; the icons are written by their code points. The
  template interpolates \<open>icons[type] || icons.info\<close>, converted to a string (the text
  of a built-in function is the engine's own; it has no markup).\<close>

definition icons :: "(string \<times> string) list" where
  "icons =
     [(''success'', ''U+2705''),
      (''warning'', ''U+26A0 U+FE0F''),
      (''danger'', ''U+274C''),
      (''info'', ''U+2139 U+FE0F'')]"

fun toString :: "jsval \<Rightarrow> string" where
  "toString Undefined = ''undefined''"
| "toString (Str s) = s"
| "toString (Function n) = ''function '' @ n @ ''() { [native code] }''"
| "toString ObjectPrototype = ''[object Object]''"

definition iconText :: "string \<Rightarrow> string" where
  "iconText type =
     toString (let i = getProperty icons type in if truthy i then i else getProperty icons ''info'')"

text \<open>The string that \<open>showAlert\<close> assigns to \<open>innerHTML\<close>: the template, line by line,
  with the icon and the message interpolated. \<open>indent n\<close> is a line break followed by
  \<open>n\<close> spaces.\<close>

definition indent :: "nat \<Rightarrow> string" where
  "indent n = CHR 0x0A # replicate n (CHR '' '')"

definition alertMarkup :: "string \<Rightarrow> string \<Rightarrow> string" where
  "alertMarkup type message =
     indent 8 @ ''<div style=\"display: flex; align-items: center; gap: 10px;\">''
     @ indent 12 @ ''<span style=\"font-size: 18px;\">'' @ iconText type @ ''</span>''
     @ indent 12 @ ''<span>'' @ message @ ''</span>''
     @ indent 12
     @ ''<button onclick=\"this.parentElement.parentElement.remove()\" style=\"background: none; border: none; font-size: 18px; cursor: pointer; margin-left: auto;\">''
     @ [CHR 0xD7] @ ''</button>''
     @ indent 8 @ ''</div>''
     @ indent 4"

text \<open>\<open>showAlert(message, type)\<close>, up to the end of its synchronous work: the document
  afterwards, or the error thrown. The timers it starts (the slide-in and the removal after
  \<open>duration\<close>) run later and are not part of it.

  The assignment to \<open>innerHTML\<close> hands the whole string to the HTML parser of the
  browser, and the nodes it returns become the children of the alert. The parser is not
  part of the repository: it is the parameter \<open>parseFragment\<close>, and the message is the
  string the caller passes. Whatever the message contains is parsed together with the
  template around it.\<close>

definition showAlert ::
    "(string \<Rightarrow> node list) \<Rightarrow> string \<Rightarrow> string \<Rightarrow> node \<Rightarrow> js_error + node" where
  "showAlert parseFragment message type doc =
     (case removeAlerts doc of
        None \<Rightarrow> Inl TypeError
      | Some doc1 \<Rightarrow>
          let alert = Element ''div'' (classTokens (''alert alert-'' @ type @ '' alert-toast''))
                        (parseFragment (alertMarkup type message))
          in appendChildToBody doc1 alert)"







section \<open>Properties of the risk scorer\<close>

lemma clamp_bounds: "bound_lo \<le> clamp s \<and> clamp s \<le> bound_hi"
  by (simp add: clamp_def bound_lo_def bound_hi_def)

lemma score_result_score:
  "result_score (score cfg p) = clamp (fst (accumulate (rules cfg) p (0, [])))"
  by (simp add: score_def Let_def split: prod.split)

text \<open>
  Claim C1. For every health profile (and every rule table and cutoffs), the score of
  the result lies in the bound range from 0 to 100: the accumulated weighted score is
  clamped to that range before it is returned.
\<close>

theorem score_in_bounds:
  "0 \<le> result_score (score cfg p) \<and> result_score (score cfg p) \<le> 100
   \<and> result_score (score cfg p) = max 0 (min 100 (fst (accumulate (rules cfg) p (0, []))))"
  by (simp add: score_result_score clamp_def bound_lo_def bound_hi_def)


section \<open>Properties of the email pattern\<close>

lemma item_simp: "matches_item (NegClass True ''@'') = plain_char"
  by (rule ext) (simp add: plain_char_def)

lemma match_plus:
  "match_here ((i, Plus) # r) s \<longleftrightarrow>
     (\<exists>a t. s = a @ t \<and> a \<noteq> [] \<and> list_all (matches_item i) a \<and> match_here r t)"
proof (induction s)
  case Nil
  then show ?case by simp
next
  case (Cons c cs)
  show ?case (is "?L = ?R")
  proof
    assume L: ?L
    then have m: "matches_item i c" by simp
    from L have "match_here ((i, Plus) # r) cs \<or> match_here r cs" by simp
    then show ?R
    proof
      assume "match_here ((i, Plus) # r) cs"
      with Cons.IH obtain a t where "cs = a @ t" "list_all (matches_item i) a" "match_here r t"
        by blast
      with m have "c # cs = (c # a) @ t \<and> c # a \<noteq> [] \<and> list_all (matches_item i) (c # a) \<and> match_here r t"
        by simp
      then show ?R by blast
    next
      assume "match_here r cs"
      with m have "c # cs = [c] @ cs \<and> [c] \<noteq> [] \<and> list_all (matches_item i) [c] \<and> match_here r cs"
        by simp
      then show ?R by blast
    qed
  next
    assume ?R
    then obtain a t where at: "c # cs = a @ t" "a \<noteq> []" "list_all (matches_item i) a" "match_here r t"
      by blast
    then obtain a' where a: "a = c # a'" by (cases a) auto
    with at have cs: "cs = a' @ t" and m: "matches_item i c" and all: "list_all (matches_item i) a'"
      by auto
    show ?L
    proof (cases "a' = []")
      case True
      with cs at m show ?thesis by simp
    next
      case False
      with cs all at(4) Cons.IH have "match_here ((i, Plus) # r) cs" by blast
      with m show ?thesis by simp
    qed
  qed
qed

lemma match_once:
  "match_here ((i, Once) # r) s \<longleftrightarrow> (\<exists>c t. s = c # t \<and> matches_item i c \<and> match_here r t)"
  by (cases s) auto

lemma match_last_plus:
  "match_here [(i, Plus)] s \<longleftrightarrow> (s \<noteq> [] \<and> list_all (matches_item i) s)"
proof -
  have "match_here [(i, Plus)] s \<longleftrightarrow>
     (\<exists>a t. s = a @ t \<and> a \<noteq> [] \<and> list_all (matches_item i) a \<and> match_here [] t)"
    by (rule match_plus)
  also have "\<dots> \<longleftrightarrow> (s \<noteq> [] \<and> list_all (matches_item i) s)"
    by simp
  finally show ?thesis .
qed

lemma isValidEmail_shape: "isValidEmail s \<longleftrightarrow> email_shape s"
proof
  assume "isValidEmail s"
  then have "match_here emailRegex s" by (simp add: isValidEmail_def test_def)
  then have "\<exists>a t. s = a @ t \<and> a \<noteq> [] \<and> list_all (matches_item (NegClass True ''@'')) a
      \<and> match_here [(Lit (CHR ''@''), Once), (NegClass True ''@'', Plus),
        (Lit (CHR ''.''), Once), (NegClass True ''@'', Plus)] t"
    unfolding emailRegex_def by (rule match_plus [THEN iffD1])
  then obtain a t where a: "s = a @ t" "a \<noteq> []" "list_all (matches_item (NegClass True ''@'')) a"
    and t: "match_here [(Lit (CHR ''@''), Once), (NegClass True ''@'', Plus),
        (Lit (CHR ''.''), Once), (NegClass True ''@'', Plus)] t"
    by blast
  from t obtain t' where t': "t = CHR ''@'' # t'"
    and m: "match_here [(NegClass True ''@'', Plus), (Lit (CHR ''.''), Once),
        (NegClass True ''@'', Plus)] t'"
    by (cases t) simp_all
  from m have "\<exists>b u. t' = b @ u \<and> b \<noteq> [] \<and> list_all (matches_item (NegClass True ''@'')) b
      \<and> match_here [(Lit (CHR ''.''), Once), (NegClass True ''@'', Plus)] u"
    by (rule match_plus [THEN iffD1])
  then obtain b u where b: "t' = b @ u" "b \<noteq> []" "list_all (matches_item (NegClass True ''@'')) b"
    and u: "match_here [(Lit (CHR ''.''), Once), (NegClass True ''@'', Plus)] u"
    by blast
  from u obtain c where c: "u = CHR ''.'' # c" and mc: "match_here [(NegClass True ''@'', Plus)] c"
    by (cases u) simp_all
  from mc have "c \<noteq> [] \<and> list_all (matches_item (NegClass True ''@'')) c"
    by (rule match_last_plus [THEN iffD1])
  with a b c t' have "s = a @ ''@'' @ b @ ''.'' @ c \<and> a \<noteq> [] \<and> b \<noteq> [] \<and> c \<noteq> []
      \<and> list_all plain_char a \<and> list_all plain_char b \<and> list_all plain_char c"
    by (simp add: item_simp)
  then show "email_shape s" unfolding email_shape_def by blast
next
  assume "email_shape s"
  then obtain a b c where s: "s = a @ ''@'' @ b @ ''.'' @ c"
    and ne: "a \<noteq> []" "b \<noteq> []" "c \<noteq> []"
    and pl: "list_all plain_char a" "list_all plain_char b" "list_all plain_char c"
    unfolding email_shape_def by blast
  have "c \<noteq> [] \<and> list_all (matches_item (NegClass True ''@'')) c"
    using ne pl by (simp add: item_simp)
  then have 1: "match_here [(NegClass True ''@'', Plus)] c"
    by (rule match_last_plus [THEN iffD2])
  have 2: "match_here [(Lit (CHR ''.''), Once), (NegClass True ''@'', Plus)] (CHR ''.'' # c)"
    using 1 by simp
  have "\<exists>x t. b @ CHR ''.'' # c = x @ t \<and> x \<noteq> [] \<and> list_all (matches_item (NegClass True ''@'')) x
      \<and> match_here [(Lit (CHR ''.''), Once), (NegClass True ''@'', Plus)] t"
    using 2 ne pl by (intro exI [of _ b] exI [of _ "CHR ''.'' # c"]) (simp add: item_simp)
  then have 3: "match_here [(NegClass True ''@'', Plus), (Lit (CHR ''.''), Once),
        (NegClass True ''@'', Plus)] (b @ CHR ''.'' # c)"
    by (rule match_plus [THEN iffD2])
  have 4: "match_here [(Lit (CHR ''@''), Once), (NegClass True ''@'', Plus),
        (Lit (CHR ''.''), Once), (NegClass True ''@'', Plus)] (CHR ''@'' # b @ CHR ''.'' # c)"
    using 3 by simp
  have "\<exists>x t. a @ CHR ''@'' # b @ CHR ''.'' # c = x @ t \<and> x \<noteq> []
      \<and> list_all (matches_item (NegClass True ''@'')) x
      \<and> match_here [(Lit (CHR ''@''), Once), (NegClass True ''@'', Plus),
        (Lit (CHR ''.''), Once), (NegClass True ''@'', Plus)] t"
    using 4 ne pl by (intro exI [of _ a] exI [of _ "CHR ''@'' # b @ CHR ''.'' # c"]) (simp add: item_simp)
  then have "match_here emailRegex (a @ CHR ''@'' # b @ CHR ''.'' # c)"
    unfolding emailRegex_def by (rule match_plus [THEN iffD2])
  then show "isValidEmail s" by (simp add: isValidEmail_def test_def s)
qed


lemma plain_all: "list_all plain_char a \<longleftrightarrow> (\<forall>x\<in>set a. \<not> isWhiteSpace x \<and> x \<noteq> CHR ''@'')"
  by (simp add: list_all_iff plain_char_def)

lemma not_ws_at: "\<not> isWhiteSpace (CHR ''@'')" and not_ws_dot: "\<not> isWhiteSpace (CHR ''.'')"
  by (simp_all add: isWhiteSpace_def)

lemma shape_no_space:
  assumes "email_shape s" and "x \<in> set s" shows "\<not> isWhiteSpace x"
proof -
  from assms(1) obtain a b c where s: "s = a @ ''@'' @ b @ ''.'' @ c"
    and pl: "list_all plain_char a" "list_all plain_char b" "list_all plain_char c"
    unfolding email_shape_def by blast
  from assms(2) s have "x \<in> set a \<or> x = CHR ''@'' \<or> x \<in> set b \<or> x = CHR ''.'' \<or> x \<in> set c"
    by auto
  with pl show ?thesis
    unfolding plain_all using not_ws_at not_ws_dot by blast
qed

lemma shape_has_at: "email_shape s \<Longrightarrow> CHR ''@'' \<in> set s"
  unfolding email_shape_def by auto

lemma shape_dot_after_at:
  assumes "email_shape s" shows "CHR ''.'' \<in> set (dropWhile (\<lambda>x. x \<noteq> CHR ''@'') s)"
proof -
  from assms obtain a b c where s: "s = a @ ''@'' @ b @ ''.'' @ c"
    and pl: "list_all plain_char a"
    unfolding email_shape_def by blast
  from pl have "\<forall>x\<in>set a. x \<noteq> CHR ''@''" by (simp add: plain_all)
  then have "dropWhile (\<lambda>x. x \<noteq> CHR ''@'') s = ''@'' @ b @ ''.'' @ c"
    unfolding s by (simp add: dropWhile_append2)
  then show ?thesis by simp
qed

text \<open>
  Claim C10. \<open>isValidEmail s\<close> holds exactly when \<open>s\<close> is one or more characters that are
  neither white space nor \<open>@\<close>, then an \<open>@\<close>, one or more such characters, a dot, and one
  or more such characters. In particular a string that contains white space, or no \<open>@\<close>,
  or no dot after its first \<open>@\<close>, is rejected.
\<close>

theorem isValidEmail_iff_shape:
  "(isValidEmail s \<longleftrightarrow>
      (\<exists>a b c. s = a @ ''@'' @ b @ ''.'' @ c \<and> a \<noteq> [] \<and> b \<noteq> [] \<and> c \<noteq> []
         \<and> (\<forall>x \<in> set (a @ b @ c). \<not> isWhiteSpace x \<and> x \<noteq> CHR ''@'')))
   \<and> ((\<exists>x \<in> set s. isWhiteSpace x) \<longrightarrow> \<not> isValidEmail s)
   \<and> (CHR ''@'' \<notin> set s \<longrightarrow> \<not> isValidEmail s)
   \<and> (CHR ''.'' \<notin> set (dropWhile (\<lambda>x. x \<noteq> CHR ''@'') s) \<longrightarrow> \<not> isValidEmail s)"
proof -
  have "email_shape s \<longleftrightarrow>
      (\<exists>a b c. s = a @ ''@'' @ b @ ''.'' @ c \<and> a \<noteq> [] \<and> b \<noteq> [] \<and> c \<noteq> []
         \<and> (\<forall>x \<in> set (a @ b @ c). \<not> isWhiteSpace x \<and> x \<noteq> CHR ''@''))"
    unfolding email_shape_def plain_all by (simp add: ball_Un conj_ac)
  then show ?thesis
    using shape_no_space [of s] shape_has_at [of s] shape_dot_after_at [of s]
    unfolding isValidEmail_shape by blast
qed

theorem isValidEmail_iff_shape_witness:
  "isValidEmail ''user@example.com''
   \<and> (\<exists>a b c. ''user@example.com'' = a @ ''@'' @ b @ ''.'' @ c \<and> a \<noteq> [] \<and> b \<noteq> [] \<and> c \<noteq> []
         \<and> (\<forall>x \<in> set (a @ b @ c). \<not> isWhiteSpace x \<and> x \<noteq> CHR ''@''))
   \<and> \<not> isValidEmail ''a b@c.d''
   \<and> \<not> isValidEmail ''abc.de''
   \<and> \<not> isValidEmail ''a@bc''"
proof -
  have v: "isValidEmail ''user@example.com''"
    by (simp add: isValidEmail_def test_def emailRegex_def isWhiteSpace_def)
  have 1: "\<exists>x \<in> set ''a b@c.d''. isWhiteSpace x"
    by (simp add: isWhiteSpace_def)
  have 2: "CHR ''@'' \<notin> set ''abc.de''"
    by simp
  have 3: "CHR ''.'' \<notin> set (dropWhile (\<lambda>x. x \<noteq> CHR ''@'') ''a@bc'')"
    by simp
  show ?thesis
    using v 1 2 3 isValidEmail_iff_shape [of "''user@example.com''"]
      isValidEmail_iff_shape [of "''a b@c.d''"] isValidEmail_iff_shape [of "''abc.de''"]
      isValidEmail_iff_shape [of "''a@bc''"]
    by blast
qed


section \<open>Properties of field validation\<close>

lemma outside_Num: "outside (Num x) lo hi \<longleftrightarrow> x < lo \<or> hi < x"
  by (simp add: outside_def js_gt_def)

lemma outside_between: "x \<noteq> NaN \<Longrightarrow> outside x lo hi \<longleftrightarrow> \<not> between x lo hi"
  by (cases x) (auto simp: outside_def between_def js_gt_def)

lemma outside_NaN: "\<not> outside NaN lo hi"
  by (simp add: outside_def js_gt_def)

lemma validateField_by_name:
  assumes "trim (field_value f) \<noteq> []" and "typeCheck rnd f (trim (field_value f)) = None"
  shows "validateField rnd f =
     (if field_name f = ''age'' \<and> outside (parseInt (trim (field_value f))) 0 120
      then (False, showFieldError (clearFieldError f) InvalidAge)
      else if field_name f = ''bmi'' \<and> outside (parseFloat rnd (trim (field_value f))) 10 60
      then (False, showFieldError (clearFieldError f) InvalidBmi)
      else if field_name f = ''avg_glucose_level''
              \<and> outside (parseFloat rnd (trim (field_value f))) 50 500
      then (False, showFieldError (clearFieldError f) InvalidGlucose)
      else (True, clearFieldError f))"
  using assms by (simp add: validateField_def Let_def)

text \<open>On an integer numeral \<open>parseInt\<close> reads the integer it denotes.\<close>

lemma isRadixDigit_10: "isRadixDigit 10 c = isDigit c"
  by (auto simp: isRadixDigit_def isDigit_def digitValue_def Let_def)

lemma isRadixDigit_10_fun: "isRadixDigit 10 = isDigit"
  by (rule ext) (rule isRadixDigit_10)

lemma digit_not_space: "isDigit c \<Longrightarrow> \<not> isWhiteSpace c"
  by (auto simp: isDigit_def isWhiteSpace_def Let_def)

lemma digits_no_hex_prefix:
  assumes "list_all isDigit ds" shows "stripHexPrefix ds = (10, ds)"
proof -
  have x: "\<not> isDigit (CHR ''x'')" "\<not> isDigit (CHR ''X'')"
    by (simp_all add: isDigit_def)
  have "take 2 ds \<noteq> ''0x'' \<and> take 2 ds \<noteq> ''0X''"
  proof (cases ds)
    case Nil
    then show ?thesis by simp
  next
    case (Cons a as)
    with assms x show ?thesis by (cases as) auto
  qed
  then show ?thesis by (simp add: stripHexPrefix_def)
qed

lemma numeral_no_leading_space:
  assumes "integer_numeral s" shows "trimStart s = s"
proof (cases s)
  case Nil
  then show ?thesis by (simp add: trimStart_def)
next
  case (Cons c cs)
  have sg: "\<not> isWhiteSpace (CHR ''-'')" "\<not> isWhiteSpace (CHR ''+'')"
    by (simp_all add: isWhiteSpace_def)
  have "\<not> isWhiteSpace c"
  proof (cases "c = CHR ''-'' \<or> c = CHR ''+''")
    case True
    with sg show ?thesis by auto
  next
    case False
    with assms Cons have "isDigit c"
      by (simp add: integer_numeral_def stripSign_def)
    then show ?thesis by (rule digit_not_space)
  qed
  with Cons show ?thesis by (simp add: trimStart_def)
qed

lemma parseInt_numeral:
  assumes "integer_numeral s"
  shows "parseInt s = Num (of_int (integer_value s))"
proof -
  obtain neg ds where sg: "stripSign s = (neg, ds)" by (cases "stripSign s")
  with assms have ds: "ds \<noteq> []" "list_all isDigit ds"
    by (simp_all add: integer_numeral_def)
  from ds(2) have tw: "takeWhile isDigit ds = ds"
    by (simp add: takeWhile_eq_all_conv list_all_iff)
  show ?thesis
    using sg ds(1)
    by (simp add: parseInt_def numeral_no_leading_space [OF assms] digits_no_hex_prefix [OF ds(2)]
        isRadixDigit_10_fun integer_value_def tw Let_def)
qed

text \<open>
  Claim C2, as amended. For a field named \<open>age\<close> whose value is not empty after trimming,
  passes the check of its input type (the \<open>switch\<close> on the type falls through) and makes
  \<open>parseInt\<close> read a number \<open>n\<close>, \<open>validateField\<close> accepts the value exactly when \<open>n\<close> is
  between 0 and 120 inclusive; otherwise it shows the age message and returns false. The
  number read is the integer of the leading digits, so it need not be all of the value;
  when the value is an integer numeral, it is accepted exactly when it represents an
  integer between 0 and 120.
\<close>

theorem age_validation:
  assumes "field_name f = ''age''" and "trim (field_value f) \<noteq> []"
    and "typeCheck rnd f (trim (field_value f)) = None"
    and "parseInt (trim (field_value f)) = Num n"
  shows "(fst (validateField rnd f) \<longleftrightarrow> 0 \<le> n \<and> n \<le> 120)
     \<and> (\<not> (0 \<le> n \<and> n \<le> 120) \<longrightarrow>
          snd (validateField rnd f) = showFieldError (clearFieldError f) InvalidAge)
     \<and> (integer_numeral (trim (field_value f)) \<longrightarrow>
          (fst (validateField rnd f) \<longleftrightarrow> integer_in_range (trim (field_value f)) 0 120))"
proof -
  have a: "fst (validateField rnd f) \<longleftrightarrow> 0 \<le> n \<and> n \<le> 120"
    using assms by (auto simp: validateField_by_name outside_Num)
  have b: "\<not> (0 \<le> n \<and> n \<le> 120) \<longrightarrow>
          snd (validateField rnd f) = showFieldError (clearFieldError f) InvalidAge"
    using assms by (auto simp: validateField_by_name outside_Num)
  have c: "fst (validateField rnd f) \<longleftrightarrow> integer_in_range (trim (field_value f)) 0 120"
    if num: "integer_numeral (trim (field_value f))"
  proof -
    from parseInt_numeral [OF num] assms(4)
    have "n = of_int (integer_value (trim (field_value f)))" by simp
    then have "0 \<le> n \<and> n \<le> 120 \<longleftrightarrow>
        0 \<le> integer_value (trim (field_value f)) \<and> integer_value (trim (field_value f)) \<le> 120"
      by simp
    with a num show ?thesis by (simp add: integer_in_range_def)
  qed
  from a b c show ?thesis by blast
qed

text \<open>The theorem at a number input with value 42, which is accepted, and at a text
  input with value 121, which is rejected with the age message.\<close>

theorem age_validation_witness:
  "fst (validateField binary64 (number_input ''age'' ''0'' ''120'' ''42''))
   \<and> \<not> fst (validateField binary64 (input ''text'' ''age'' ''121''))
   \<and> snd (validateField binary64 (input ''text'' ''age'' ''121''))
       = showFieldError (clearFieldError (input ''text'' ''age'' ''121'')) InvalidAge"
proof -
  let ?f = "number_input ''age'' ''0'' ''120'' ''42''"
  let ?g = "input ''text'' ''age'' ''121''"
  have f: "field_name ?f = ''age''" "trim (field_value ?f) \<noteq> []"
    "typeCheck binary64 ?f (trim (field_value ?f)) = None"
    "parseInt (trim (field_value ?f)) = Num 42"
    by code_simp+
  have g: "field_name ?g = ''age''" "trim (field_value ?g) \<noteq> []"
    "typeCheck binary64 ?g (trim (field_value ?g)) = None"
    "parseInt (trim (field_value ?g)) = Num 121"
    by code_simp+
  show ?thesis
    using age_validation [OF f] age_validation [OF g] by simp
qed

text \<open>The claim as first stated fails in both directions. In a number input with
  \<open>min\<close> 0 and \<open>max\<close> 120 the value 12.5 is accepted, and it is not an integer numeral.
  In a number input whose \<open>min\<close> is 18 the value 5 is rejected by the check of the type,
  and it represents an integer between 0 and 120.\<close>

theorem age_fraction_accepted:
  "fst (validateField binary64 (number_input ''age'' ''0'' ''120'' ''12.5''))
   \<and> \<not> integer_in_range ''12.5'' 0 120
   \<and> \<not> fst (validateField binary64 (number_input ''age'' ''18'' ''120'' ''5''))
   \<and> integer_in_range ''5'' 0 120"
  by code_simp

text \<open>
  Claim C5, as amended. For a field named \<open>avg_glucose_level\<close> whose value is not empty
  after trimming, passes the check of its input type and parses (\<open>parseFloat\<close>) to a
  number rather than \<open>NaN\<close>, \<open>validateField\<close> accepts the value exactly when the parsed
  number lies between 50 and 500 inclusive, the bounds 50 and 500 included; otherwise
  it shows the glucose message and returns false.
\<close>

theorem glucose_validation:
  assumes "field_name f = ''avg_glucose_level''" and "trim (field_value f) \<noteq> []"
    and "typeCheck rnd f (trim (field_value f)) = None"
    and "parseFloat rnd (trim (field_value f)) \<noteq> NaN"
  shows "(fst (validateField rnd f) \<longleftrightarrow> between (parseFloat rnd (trim (field_value f))) 50 500)
     \<and> (\<not> between (parseFloat rnd (trim (field_value f))) 50 500 \<longrightarrow>
          snd (validateField rnd f) = showFieldError (clearFieldError f) InvalidGlucose)
     \<and> (parseFloat rnd (trim (field_value f)) = Num 50
          \<or> parseFloat rnd (trim (field_value f)) = Num 500 \<longrightarrow> fst (validateField rnd f))"
  using assms by (auto simp: validateField_by_name outside_between between_def)

text \<open>The theorem at a number input with bounds 50 and 500: 120.5 and the bound 500 are
  accepted; and at a text input with value 600, rejected with the glucose message.\<close>

theorem glucose_validation_witness:
  "fst (validateField binary64 (number_input ''avg_glucose_level'' ''50'' ''500'' ''120.5''))
   \<and> fst (validateField binary64 (number_input ''avg_glucose_level'' ''50'' ''500'' ''500''))
   \<and> \<not> fst (validateField binary64 (input ''text'' ''avg_glucose_level'' ''600''))
   \<and> snd (validateField binary64 (input ''text'' ''avg_glucose_level'' ''600''))
       = showFieldError (clearFieldError (input ''text'' ''avg_glucose_level'' ''600''))
           InvalidGlucose"
proof -
  let ?f = "number_input ''avg_glucose_level'' ''50'' ''500'' ''120.5''"
  let ?g = "input ''text'' ''avg_glucose_level'' ''600''"
  let ?h = "number_input ''avg_glucose_level'' ''50'' ''500'' ''500''"
  have f: "field_name ?f = ''avg_glucose_level''" "trim (field_value ?f) \<noteq> []"
    "typeCheck binary64 ?f (trim (field_value ?f)) = None"
    "parseFloat binary64 (trim (field_value ?f)) \<noteq> NaN"
    by code_simp+
  have fv: "between (parseFloat binary64 (trim (field_value ?f))) 50 500"
    by code_simp
  have g: "field_name ?g = ''avg_glucose_level''" "trim (field_value ?g) \<noteq> []"
    "typeCheck binary64 ?g (trim (field_value ?g)) = None"
    "parseFloat binary64 (trim (field_value ?g)) \<noteq> NaN"
    by code_simp+
  have gv: "\<not> between (parseFloat binary64 (trim (field_value ?g))) 50 500"
    by code_simp
  have h: "field_name ?h = ''avg_glucose_level''" "trim (field_value ?h) \<noteq> []"
    "typeCheck binary64 ?h (trim (field_value ?h)) = None"
    "parseFloat binary64 (trim (field_value ?h)) \<noteq> NaN"
    by code_simp+
  have hv: "parseFloat binary64 (trim (field_value ?h)) = Num 500"
    by code_simp
  show ?thesis
    using glucose_validation [OF f] glucose_validation [OF g] glucose_validation [OF h] fv gv hv
    by (simp add: between_def)
qed

text \<open>The claim as first stated fails in both directions. In a text input the value
  \<open>abc\<close> is accepted although it parses to \<open>NaN\<close>, which is not between 50 and 500. In a
  number input whose \<open>max\<close> is 300 the value 400 is rejected by the check of the type
  although it parses to a number between 50 and 500.\<close>

theorem glucose_not_iff:
  "fst (validateField binary64 (input ''text'' ''avg_glucose_level'' ''abc''))
   \<and> \<not> between (parseFloat binary64 ''abc'') 50 500
   \<and> \<not> fst (validateField binary64 (number_input ''avg_glucose_level'' ''0'' ''300'' ''400''))
   \<and> between (parseFloat binary64 ''400'') 50 500"
  by code_simp

text \<open>
  Claim C6, as amended. For a field named \<open>bmi\<close> whose value is not empty after trimming,
  passes the check of its input type and parses (\<open>parseFloat\<close>) to a number rather than
  \<open>NaN\<close>, \<open>validateField\<close> accepts the value exactly when the parsed number lies between
  10 and 60 inclusive; otherwise it shows the BMI message and returns false.
\<close>

theorem bmi_validation:
  assumes "field_name f = ''bmi''" and "trim (field_value f) \<noteq> []"
    and "typeCheck rnd f (trim (field_value f)) = None"
    and "parseFloat rnd (trim (field_value f)) \<noteq> NaN"
  shows "(fst (validateField rnd f) \<longleftrightarrow> between (parseFloat rnd (trim (field_value f))) 10 60)
     \<and> (\<not> between (parseFloat rnd (trim (field_value f))) 10 60 \<longrightarrow>
          snd (validateField rnd f) = showFieldError (clearFieldError f) InvalidBmi)"
  using assms by (auto simp: validateField_by_name outside_between)

text \<open>The theorem at a number input with bounds 10 and 60 and value 27.3, accepted, and
  at a text input with value 9.5, rejected with the BMI message.\<close>

theorem bmi_validation_witness:
  "fst (validateField binary64 (number_input ''bmi'' ''10'' ''60'' ''27.3''))
   \<and> \<not> fst (validateField binary64 (input ''text'' ''bmi'' ''9.5''))
   \<and> snd (validateField binary64 (input ''text'' ''bmi'' ''9.5''))
       = showFieldError (clearFieldError (input ''text'' ''bmi'' ''9.5'')) InvalidBmi"
proof -
  let ?f = "number_input ''bmi'' ''10'' ''60'' ''27.3''"
  let ?g = "input ''text'' ''bmi'' ''9.5''"
  have f: "field_name ?f = ''bmi''" "trim (field_value ?f) \<noteq> []"
    "typeCheck binary64 ?f (trim (field_value ?f)) = None"
    "parseFloat binary64 (trim (field_value ?f)) \<noteq> NaN"
    by code_simp+
  have fv: "between (parseFloat binary64 (trim (field_value ?f))) 10 60"
    by code_simp
  have g: "field_name ?g = ''bmi''" "trim (field_value ?g) \<noteq> []"
    "typeCheck binary64 ?g (trim (field_value ?g)) = None"
    "parseFloat binary64 (trim (field_value ?g)) \<noteq> NaN"
    by code_simp+
  have gv: "\<not> between (parseFloat binary64 (trim (field_value ?g))) 10 60"
    by code_simp
  show ?thesis
    using bmi_validation [OF f] bmi_validation [OF g] fv gv by simp
qed

text \<open>The claim as first stated fails in both directions. In a text input the value
  \<open>abc\<close> is accepted although it parses to \<open>NaN\<close>, which is not between 10 and 60. In a
  number input whose \<open>min\<close> is 15 the value 12 is rejected by the check of the type
  although it parses to a number between 10 and 60.\<close>

theorem bmi_not_iff:
  "fst (validateField binary64 (input ''text'' ''bmi'' ''abc''))
   \<and> \<not> between (parseFloat binary64 ''abc'') 10 60
   \<and> \<not> fst (validateField binary64 (number_input ''bmi'' ''15'' ''60'' ''12''))
   \<and> between (parseFloat binary64 ''12'') 10 60"
  by code_simp

text \<open>In a number input whose \<open>min\<close> and \<open>max\<close> attributes, where present, do not cut into
  the range, the two range claims hold for every value that is not empty after
  trimming: a value that is not a number is rejected by the check of the type.\<close>

lemma glucose_number_input:
  assumes "field_type f = ''number''" and "field_name f = ''avg_glucose_level''"
    and "trim (field_value f) \<noteq> []"
    and "\<not> js_lt (Num 50) (parseFloat rnd (attributeString (min_attr f)))"
    and "\<not> js_lt (parseFloat rnd (attributeString (max_attr f))) (Num 500)"
  shows "fst (validateField rnd f) \<longleftrightarrow> between (parseFloat rnd (trim (field_value f))) 50 500"
  using assms
  by (cases "parseFloat rnd (attributeString (min_attr f))";
      cases "parseFloat rnd (attributeString (max_attr f))";
      cases "parseFloat rnd (trim (field_value f))")
    (auto simp: validateField_def typeCheck_def Let_def outside_def between_def js_gt_def isNaN_def)

lemma bmi_number_input:
  assumes "field_type f = ''number''" and "field_name f = ''bmi''"
    and "trim (field_value f) \<noteq> []"
    and "\<not> js_lt (Num 10) (parseFloat rnd (attributeString (min_attr f)))"
    and "\<not> js_lt (parseFloat rnd (attributeString (max_attr f))) (Num 60)"
  shows "fst (validateField rnd f) \<longleftrightarrow> between (parseFloat rnd (trim (field_value f))) 10 60"
  using assms
  by (cases "parseFloat rnd (attributeString (min_attr f))";
      cases "parseFloat rnd (attributeString (max_attr f))";
      cases "parseFloat rnd (trim (field_value f))")
    (auto simp: validateField_def typeCheck_def Let_def outside_def between_def js_gt_def isNaN_def)

text \<open>
  Claim C9, as amended. For a password input whose name is none of \<open>age\<close>, \<open>bmi\<close> and
  \<open>avg_glucose_level\<close>, with the value taken after trimming: a non-empty value is rejected
  exactly when it has fewer than 6 characters, and then with the password message; an
  empty value is rejected exactly when the field carries the \<open>required\<close> attribute.
\<close>

theorem password_validation:
  assumes "field_type f = ''password''"
    and "field_name f \<noteq> ''age''" and "field_name f \<noteq> ''bmi''"
    and "field_name f \<noteq> ''avg_glucose_level''"
  shows "(trim (field_value f) \<noteq> [] \<longrightarrow>
            (\<not> fst (validateField rnd f) \<longleftrightarrow> length (trim (field_value f)) < 6))
     \<and> (trim (field_value f) \<noteq> [] \<and> length (trim (field_value f)) < 6 \<longrightarrow>
            snd (validateField rnd f) = showFieldError (clearFieldError f) ShortPassword)
     \<and> (trim (field_value f) = [] \<longrightarrow> (\<not> fst (validateField rnd f) \<longleftrightarrow> required f))"
  using assms by (auto simp: validateField_def typeCheck_def Let_def)

text \<open>The theorem at three required password inputs: \<open>secret1\<close> is accepted, \<open>abc\<close> is
  rejected with the password message, and the empty value is rejected.\<close>

theorem password_validation_witness:
  "fst (validateField binary64 (input ''password'' ''password'' ''secret1''))
   \<and> \<not> fst (validateField binary64 (input ''password'' ''password'' ''abc''))
   \<and> snd (validateField binary64 (input ''password'' ''password'' ''abc''))
       = showFieldError (clearFieldError (input ''password'' ''password'' ''abc'')) ShortPassword
   \<and> \<not> fst (validateField binary64 (input ''password'' ''password'' []))"
proof -
  let ?f = "input ''password'' ''password'' ''secret1''"
  let ?g = "input ''password'' ''password'' ''abc''"
  let ?h = "input ''password'' ''password'' []"
  have f: "field_type ?f = ''password''" "field_name ?f \<noteq> ''age''" "field_name ?f \<noteq> ''bmi''"
    "field_name ?f \<noteq> ''avg_glucose_level''"
    by (simp_all add: input_def)
  have fv: "trim (field_value ?f) \<noteq> []" "\<not> length (trim (field_value ?f)) < 6"
    by code_simp+
  have g: "field_type ?g = ''password''" "field_name ?g \<noteq> ''age''" "field_name ?g \<noteq> ''bmi''"
    "field_name ?g \<noteq> ''avg_glucose_level''"
    by (simp_all add: input_def)
  have gv: "trim (field_value ?g) \<noteq> []" "length (trim (field_value ?g)) < 6"
    by code_simp+
  have h: "field_type ?h = ''password''" "field_name ?h \<noteq> ''age''" "field_name ?h \<noteq> ''bmi''"
    "field_name ?h \<noteq> ''avg_glucose_level''"
    by (simp_all add: input_def)
  have hv: "trim (field_value ?h) = []" "required ?h"
    by code_simp+
  show ?thesis
    using password_validation [OF f, of binary64] password_validation [OF g, of binary64]
      password_validation [OF h, of binary64] fv gv hv
    by simp
qed

text \<open>The claim as first stated fails. The value \<open>abcd\<close> followed by two spaces has six
  characters and is rejected, since the length is taken after trimming. And a password
  input named \<open>age\<close> with the seven characters 1234567 is rejected, by the age check.\<close>

theorem password_trimmed_rejected:
  "\<not> fst (validateField binary64 (input ''password'' ''password'' ''abcd  ''))
   \<and> \<not> length ''abcd  '' < 6
   \<and> \<not> fst (validateField binary64 (input ''password'' ''age'' ''1234567''))
   \<and> \<not> length ''1234567'' < 6"
  by code_simp


section \<open>Properties of form submission\<close>

lemma validateFields_step:
  "fst (validateFields rnd (f # fs) b) =
     fst (validateFields rnd fs (if required f \<and> \<not> fst (validateField rnd f) then False else b))"
  by (simp add: case_prod_beta)

lemma validateFields_result:
  "fst (validateFields rnd fs b) \<longleftrightarrow> b \<and> (\<forall>f \<in> set fs. required f \<longrightarrow> fst (validateField rnd f))"
proof (induction fs arbitrary: b)
  case Nil
  show ?case by simp
next
  case (Cons f fs)
  show ?case
    unfolding validateFields_step Cons.IH by auto
qed

lemma submitHandler_effects:
  "fst (submitHandler rnd form) =
     (if fst (validateForm rnd form) then []
      else [PreventDefault, ShowAlert ''Please fill in all required fields correctly.'' ''warning''])"
  by (cases "validateForm rnd form") (simp add: submitHandler_def)

text \<open>
  Claim C3. For every form, the submit handler prevents the submission and shows the
  warning alert exactly when \<open>validateForm\<close> returns false (and does nothing when it
  returns true), and \<open>validateForm\<close> returns true exactly when every field that carries
  the \<open>required\<close> attribute passes \<open>validateField\<close>.
\<close>

theorem submit_prevented_iff_invalid:
  "(fst (submitHandler rnd form)
       = [PreventDefault, ShowAlert ''Please fill in all required fields correctly.'' ''warning'']
      \<longleftrightarrow> \<not> fst (validateForm rnd form))
   \<and> (fst (submitHandler rnd form) = [] \<longleftrightarrow> fst (validateForm rnd form))
   \<and> (fst (validateForm rnd form)
        \<longleftrightarrow> (\<forall>f \<in> set form. required f \<longrightarrow> fst (validateField rnd f)))"
  by (simp add: submitHandler_effects validateForm_def validateFields_result)

text \<open>The theorem at two forms: one whose required age field holds 121, and one whose
  fields are all valid (an optional field left empty among them).\<close>

theorem submit_prevented_iff_invalid_witness:
  "fst (submitHandler binary64
      [input ''text'' ''name'' ''Ada'', number_input ''age'' ''0'' ''120'' ''121''])
     = [PreventDefault, ShowAlert ''Please fill in all required fields correctly.'' ''warning'']
   \<and> fst (submitHandler binary64
      [input ''text'' ''name'' ''Ada'', (input ''text'' ''note'' [])\<lparr>required := False\<rparr>,
       number_input ''age'' ''0'' ''120'' ''36'']) = []"
proof -
  let ?bad = "[input ''text'' ''name'' ''Ada'', number_input ''age'' ''0'' ''120'' ''121'']"
  let ?good = "[input ''text'' ''name'' ''Ada'', (input ''text'' ''note'' [])\<lparr>required := False\<rparr>,
       number_input ''age'' ''0'' ''120'' ''36'']"
  have b: "\<not> (\<forall>f \<in> set ?bad. required f \<longrightarrow> fst (validateField binary64 f))"
    by code_simp
  have g: "\<forall>f \<in> set ?good. required f \<longrightarrow> fst (validateField binary64 f)"
    by code_simp
  show ?thesis
    using b g submit_prevented_iff_invalid [of binary64 ?bad]
      submit_prevented_iff_invalid [of binary64 ?good]
    by blast
qed


section \<open>Properties of the tier colours\<close>

lemma tier_colors:
  "map getRiskLevelColor tier_names =
     [Str ''#28a745'', Str ''#17a2b8'', Str ''#ffc107'', Str ''#fd7e14'', Str ''#dc3545'',
      Str ''#6f42c1'']"
  by (simp add: tier_names_def getRiskLevelColor_def getProperty_def colors_def)

lemma tier_colors_distinct: "distinct (map getRiskLevelColor tier_names)"
  unfolding tier_colors by simp

lemma default_color:
  assumes "level \<notin> set tier_names" and "level \<notin> fst ` set objectPrototype"
  shows "getRiskLevelColor level = Str ''#6c757d''"
proof -
  from assms(1) have "map_of colors level = None"
    by (simp add: tier_names_def colors_def)
  moreover from assms(2) have "map_of objectPrototype level = None"
    by (simp add: map_of_eq_None_iff)
  ultimately show ?thesis
    by (simp add: getRiskLevelColor_def getProperty_def)
qed

text \<open>
  Claim C4 says that every string outside the six tier names gets the default colour
  \<open>#6c757d\<close>. The string \<open>constructor\<close> is outside the tier names, and for it the lookup
  finds the property that the colour table inherits from \<open>Object.prototype\<close>: the result
  is a function, not the default colour.
\<close>

theorem inherited_name_color:
  "''constructor'' \<notin> set tier_names
   \<and> getRiskLevelColor ''constructor'' = Function ''Object''
   \<and> getRiskLevelColor ''constructor'' \<noteq> Str ''#6c757d''"
  by (simp add: tier_names_def getRiskLevelColor_def getProperty_def colors_def objectPrototype_def)


section \<open>Properties of toast alerts\<close>








text \<open>\<open>showAlert\<close> completes on every document whose \<open>html\<close> root has a \<open>body\<close> (or
  \<open>frameset\<close>) child, neither of them of class \<open>alert-toast\<close>.\<close>

lemma appendToFirstBody_Some:
  "\<exists>n \<in> set ns. isBody n \<Longrightarrow> \<exists>r. appendToFirstBody ns new = Some r"
  by (induction ns new rule: appendToFirstBody.induct) auto

lemma removeMatching_isBody: "isBody (removeMatching c n) = isBody n"
  by (cases n) simp_all

lemma showAlert_completes:
  assumes "''alert-toast'' \<notin> set cl"
    and "\<exists>n \<in> set ch. isBody n \<and> \<not> hasClass ''alert-toast'' n"
  shows "\<exists>doc'. showAlert parseFragment message type (Element ''html'' cl ch) = Inr doc'"
proof -
  let ?alert = "Element ''div'' (classTokens (''alert alert-'' @ type @ '' alert-toast''))
      (parseFragment (alertMarkup type message))"
  let ?ch = "map (removeMatching ''alert-toast'') (filter (\<lambda>n. \<not> hasClass ''alert-toast'' n) ch)"
  from assms(2) have "\<exists>n \<in> set ?ch. isBody n"
    by (auto simp: removeMatching_isBody)
  then obtain r where "appendToFirstBody ?ch ?alert = Some r"
    using appendToFirstBody_Some by blast
  with assms(1) show ?thesis
    by (simp add: showAlert_def removeAlerts_def appendChildToBody_def)
qed




end
